theory Spec2Isabelle
  imports Main "HOL-Library.Word"
begin

section \<open>Values exchanged with the browser and the backend\<close>

text \<open>
  A response body as axios hands it over in \<open>apiResponse.data\<close>: whatever JSON value the
  backend sent. The type argument of \<open>axios.post<HygieneResult>\<close> is erased at run time,
  so every JSON value can arrive, \<open>null\<close> included. Numbers play no role in the
  controller and are kept as integers.
\<close>

datatype json =
    JNull
  | JBool bool
  | JNum int
  | JStr string
  | JArr "json list"
  | JObj "(string \<times> json) list"

text \<open>
  What \<open>fetch\<close>, \<open>response.blob()\<close> and \<open>axios.post\<close> can reject with. The handler of
  \<open>captureAndCheck\<close> does not look at the error, it only logs it.
\<close>

datatype js_error =
    TypeError string
  | NetworkError string
  | BadStatus nat

type_synonym byte = "8 word"

record js_blob =
  blob_bytes :: "byte list"
  blob_type :: string

record js_file =
  file_name :: string
  file_type :: string
  file_bytes :: "byte list"

text \<open>A \<open>FormData\<close> object: its parts in the order they were appended.\<close>

type_synonym formdata = "(string \<times> js_file) list"

text \<open>The \<open>Response\<close> of \<open>fetch(imageSrc)\<close>: what awaiting \<open>response.blob()\<close> gives.\<close>

record fetch_response =
  response_blob :: "js_error + js_blob"

record axios_response =
  status :: nat
  data :: json

text \<open>What the wire does with one POST: no response at all, or a status and a body.\<close>

datatype http_outcome =
    NoResponse string
  | HttpResponse nat json

text \<open>The mounted \<open>Webcam\<close> component: what its \<open>getScreenshot()\<close> returns when called.\<close>

record webcam =
  getScreenshot :: "string option"

text \<open>
  Everything outside the controller that one invocation of \<open>captureAndCheck\<close> meets:
  the content of \<open>webcamRef.current\<close>, how \<open>fetch\<close> answers for a given URL, and how the
  wire answers a POST of a form to a URL.
\<close>

record env =
  webcamRef_current :: "webcam option"
  fetch :: "string \<Rightarrow> js_error + fetch_response"
  transport :: "string \<Rightarrow> formdata \<Rightarrow> http_outcome"

section \<open>The three state flags\<close>

text \<open>
  \<open>useState<HygieneResult | null>(null)\<close>, \<open>useState<boolean>(false)\<close> and
  \<open>useState<string | null>(null)\<close>. The result holds the run-time value, \<open>JNull\<close> for
  \<open>null\<close>.
\<close>

record ui_state =
  result :: json
  loading :: bool
  error :: "string option"

definition initial_state :: ui_state where
  "initial_state = \<lparr>result = JNull, loading = False, error = None\<rparr>"

section \<open>Effects of the controller\<close>

text \<open>
  One entry per effect that \<open>captureAndCheck\<close> performs, in program order. \<open>Fetch\<close>,
  \<open>ReadBlob\<close> and \<open>Post\<close> are the three \<open>await\<close>s: the call is issued and the function
  is suspended until it settles.
\<close>

datatype event =
    SetLoading bool
  | SetError "string option"
  | SetResult json
  | GetScreenshot
  | Fetch string
  | ReadBlob
  | Post string formdata
  | ConsoleError js_error

fun apply_event :: "ui_state \<Rightarrow> event \<Rightarrow> ui_state" where
  "apply_event st (SetLoading b) = st\<lparr>loading := b\<rparr>"
| "apply_event st (SetError e) = st\<lparr>error := e\<rparr>"
| "apply_event st (SetResult r) = st\<lparr>result := r\<rparr>"
| "apply_event st GetScreenshot = st"
| "apply_event st (Fetch u) = st"
| "apply_event st ReadBlob = st"
| "apply_event st (Post u fd) = st"
| "apply_event st (ConsoleError err) = st"

definition exec :: "ui_state \<Rightarrow> event list \<Rightarrow> ui_state" where
  "exec st evs = foldl apply_event st evs"

fun is_await :: "event \<Rightarrow> bool" where
  "is_await (Fetch u) = True"
| "is_await ReadBlob = True"
| "is_await (Post u fd) = True"
| "is_await _ = False"

fun is_Post :: "event \<Rightarrow> bool" where
  "is_Post (Post u fd) = True"
| "is_Post _ = False"

text \<open>
  The instants at which the flags can be observed while an invocation is under way: the
  function gives control back only at an \<open>await\<close>, and the flags do not change until the
  awaited call settles. Each entry pairs the pending call with the flags seen meanwhile.
\<close>

fun observations :: "ui_state \<Rightarrow> event list \<Rightarrow> (event \<times> ui_state) list" where
  "observations st [] = []"
| "observations st (e # es) =
     (if is_await e then (e, st) # observations st es
      else observations (apply_event st e) es)"

section \<open>The controller\<close>

text \<open>\<open>new File(parts, name, {type})\<close>: the bytes of the parts, under the given name and type.\<close>

definition new_File :: "js_blob list \<Rightarrow> string \<Rightarrow> string \<Rightarrow> js_file" where
  "new_File parts name ty =
     \<lparr>file_name = name, file_type = ty, file_bytes = concat (map blob_bytes parts)\<rparr>"

definition FormData_append :: "formdata \<Rightarrow> string \<Rightarrow> js_file \<Rightarrow> formdata" where
  "FormData_append fd name f = fd @ [(name, f)]"

text \<open>
  \<open>axios.post\<close> with the default configuration: the promise is rejected when there is no
  response and when the status is outside 200..299, and is fulfilled with the response
  otherwise.
\<close>

definition axios_post :: "env \<Rightarrow> string \<Rightarrow> formdata \<Rightarrow> js_error + axios_response" where
  "axios_post e url fd =
     (case transport e url fd of
        NoResponse msg \<Rightarrow> Inl (NetworkError msg)
      | HttpResponse s d \<Rightarrow>
          if 200 \<le> s \<and> s < 300 then Inr \<lparr>status = s, data = d\<rparr> else Inl (BadStatus s))"

text \<open>The \<open>catch\<close> block.\<close>

definition catch_block :: "js_error \<Rightarrow> event list" where
  "catch_block err =
     [ConsoleError err, SetError (Some ''Failed to connect to the Bath-O-Meter backend.'')]"

text \<open>The \<open>try\<close> block together with its \<open>catch\<close>; the \<open>finally\<close> follows in the caller.\<close>

definition try_block :: "string \<Rightarrow> env \<Rightarrow> string \<Rightarrow> event list" where
  "try_block API_URL e imageSrc =
     Fetch imageSrc #
     (case fetch e imageSrc of
        Inl err \<Rightarrow> catch_block err
      | Inr response \<Rightarrow>
          ReadBlob #
          (case response_blob response of
             Inl err \<Rightarrow> catch_block err
           | Inr blob \<Rightarrow>
               (let file = new_File [blob] ''selfie.jpg'' ''image/jpeg'';
                    formData = FormData_append [] ''file'' file
                in Post API_URL formData #
                   (case axios_post e API_URL formData of
                      Inl err \<Rightarrow> catch_block err
                    | Inr apiResponse \<Rightarrow> [SetResult (data apiResponse)]))))"

text \<open>The branch taken when no frame came back: the \<open>if (!imageSrc)\<close> body.\<close>

definition no_frame_block :: "event list" where
  "no_frame_block =
     [SetError (Some ''Could not capture image from webcam.''), SetLoading False]"

text \<open>
  \<open>captureAndCheck\<close>. \<open>API_URL\<close> is the module constant, read when the module is loaded
  and handed to every invocation. JavaScript's \<open>!imageSrc\<close> on a \<open>string | null\<close> holds
  for \<open>null\<close> and for the empty string.
\<close>

definition captureAndCheck :: "string \<Rightarrow> env \<Rightarrow> event list" where
  "captureAndCheck API_URL e =
     (case webcamRef_current e of
        None \<Rightarrow> []
      | Some cam \<Rightarrow>
          [SetLoading True, SetError None, GetScreenshot] @
          (case getScreenshot cam of
             None \<Rightarrow> no_frame_block
           | Some imageSrc \<Rightarrow>
               if imageSrc = [] then no_frame_block
               else try_block API_URL e imageSrc @ [SetLoading False]))"

text \<open>A sequence of invocations, each one finished before the next begins.\<close>

definition run :: "string \<Rightarrow> ui_state \<Rightarrow> env list \<Rightarrow> ui_state" where
  "run API_URL st es = foldl (\<lambda>s e. exec s (captureAndCheck API_URL e)) st es"

section \<open>Vocabulary of the properties\<close>

text \<open>The form that lines 41 to 44 build from the decoded blob.\<close>

definition upload_form :: "js_blob \<Rightarrow> formdata" where
  "upload_form blob = FormData_append [] ''file'' (new_File [blob] ''selfie.jpg'' ''image/jpeg'')"

text \<open>
  The \<open>HygieneResult\<close> interface, as a run-time check that the code never makes: an object
  with string fields \<open>status\<close>, \<open>confidence\<close> and \<open>verdict\<close> and a \<open>label\<close> that is one
  of the two literals.
\<close>

fun is_JStr :: "json option \<Rightarrow> bool" where
  "is_JStr (Some (JStr s)) = True"
| "is_JStr _ = False"

fun is_HygieneResult :: "json \<Rightarrow> bool" where
  "is_HygieneResult (JObj fs) =
     (is_JStr (map_of fs ''status'') \<and>
      (map_of fs ''label'' = Some (JStr ''fresh_clean'') \<or>
       map_of fs ''label'' = Some (JStr ''needs_bath'')) \<and>
      is_JStr (map_of fs ''confidence'') \<and>
      is_JStr (map_of fs ''verdict''))"
| "is_HygieneResult _ = False"

text \<open>
  How one invocation goes, read off the inputs alone: no reference, no frame, a rejection
  inside the \<open>try\<close> block (decoding or upload), or a delivered response body.
\<close>

datatype attempt =
    NoReference
  | NoFrame
  | Rejected js_error
  | Classified json

definition attempt_of :: "string \<Rightarrow> env \<Rightarrow> attempt" where
  "attempt_of API_URL e =
     (case webcamRef_current e of
        None \<Rightarrow> NoReference
      | Some cam \<Rightarrow>
          (case getScreenshot cam of
             None \<Rightarrow> NoFrame
           | Some imageSrc \<Rightarrow>
               if imageSrc = [] then NoFrame
               else (case fetch e imageSrc of
                       Inl err \<Rightarrow> Rejected err
                     | Inr response \<Rightarrow>
                         (case response_blob response of
                            Inl err \<Rightarrow> Rejected err
                          | Inr blob \<Rightarrow>
                              (case axios_post e API_URL (upload_form blob) of
                                 Inl err \<Rightarrow> Rejected err
                               | Inr apiResponse \<Rightarrow> Classified (data apiResponse))))))"

text \<open>The message a failing invocation leaves behind, by kind of failure.\<close>

fun failure_message :: "attempt \<Rightarrow> string option" where
  "failure_message NoFrame = Some ''Could not capture image from webcam.''"
| "failure_message (Rejected err) = Some ''Failed to connect to the Bath-O-Meter backend.''"
| "failure_message _ = None"

text \<open>The body of the most recent invocation, in a sequence, that delivered one.\<close>

fun last_classified :: "string \<Rightarrow> env list \<Rightarrow> json option" where
  "last_classified API_URL [] = None"
| "last_classified API_URL (e # es) =
     (case last_classified API_URL es of
        Some d \<Rightarrow> Some d
      | None \<Rightarrow> (case attempt_of API_URL e of Classified d \<Rightarrow> Some d | _ \<Rightarrow> None))"

section \<open>Concrete situations\<close>

definition url0 :: string where
  "url0 = ''https://bath.example/predict''"

definition frame0 :: string where
  "frame0 = ''data:image/jpeg;base64,/9j/4A==''"

definition blob0 :: js_blob where
  "blob0 = \<lparr>blob_bytes = [0xFF, 0xD8, 0xFF, 0xE0], blob_type = ''image/jpeg''\<rparr>"

definition clean_verdict :: json where
  "clean_verdict =
     JObj [(''status'', JStr ''ok''), (''label'', JStr ''fresh_clean''),
           (''confidence'', JStr ''97%''), (''verdict'', JStr ''Squeaky Clean'')]"

definition bath_verdict :: json where
  "bath_verdict =
     JObj [(''status'', JStr ''ok''), (''label'', JStr ''needs_bath''),
           (''confidence'', JStr ''61%''), (''verdict'', JStr ''Needs A Rinse'')]"

definition odd_body :: json where
  "odd_body = JObj [(''detail'', JStr ''model warming up'')]"

text \<open>
  A browser that decodes exactly \<open>frame0\<close> into \<open>blob0\<close>, in front of a wire that
  answers \<open>answer\<close> to the expected request and nothing to any other.
\<close>

definition decode0 :: "string \<Rightarrow> js_error + fetch_response" where
  "decode0 u =
     (if u = frame0 then Inr \<lparr>response_blob = Inr blob0\<rparr> else Inl (TypeError ''Failed to fetch''))"

definition wire0 :: "http_outcome \<Rightarrow> string \<Rightarrow> formdata \<Rightarrow> http_outcome" where
  "wire0 answer u fd =
     (if u = url0 \<and>
         fd = [(''file'', \<lparr>file_name = ''selfie.jpg'', file_type = ''image/jpeg'',
                          file_bytes = [0xFF, 0xD8, 0xFF, 0xE0]\<rparr>)]
      then answer else NoResponse ''unexpected request'')"

definition env_answer :: "http_outcome \<Rightarrow> env" where
  "env_answer answer =
     \<lparr>webcamRef_current = Some \<lparr>getScreenshot = Some frame0\<rparr>,
      fetch = decode0, transport = wire0 answer\<rparr>"

definition env_clean :: env where
  "env_clean = env_answer (HttpResponse 200 clean_verdict)"

definition env_odd_body :: env where
  "env_odd_body = env_answer (HttpResponse 200 odd_body)"

definition env_offline :: env where
  "env_offline = env_answer (NoResponse ''Network Error'')"

definition env_http500 :: env where
  "env_http500 = env_answer (HttpResponse 500 odd_body)"

definition env_unmounted :: env where
  "env_unmounted = env_clean\<lparr>webcamRef_current := None\<rparr>"

definition env_no_frame :: env where
  "env_no_frame = env_clean\<lparr>webcamRef_current := Some \<lparr>getScreenshot = None\<rparr>\<rparr>"

definition env_undecodable :: env where
  "env_undecodable =
     env_clean\<lparr>webcamRef_current := Some \<lparr>getScreenshot = Some ''not a data url''\<rparr>\<rparr>"

definition env_body_unreadable :: env where
  "env_body_unreadable =
     env_clean\<lparr>fetch := (\<lambda>u. Inr \<lparr>response_blob = Inl (TypeError ''body stream already read'')\<rparr>)\<rparr>"

text \<open>Flags with an earlier verdict on display and a stale error next to it.\<close>

definition st_shown :: ui_state where
  "st_shown = \<lparr>result = bath_verdict, loading = False, error = Some ''stale message''\<rparr>"

section \<open>Running a list of effects\<close>

lemma exec_Nil [simp]: "exec st [] = st"
  by (simp add: exec_def)

lemma exec_Cons [simp]: "exec st (ev # evs) = exec (apply_event st ev) evs"
  by (simp add: exec_def)

lemma exec_append: "exec st (xs @ ys) = exec (exec st xs) ys"
  by (simp add: exec_def)

lemma run_Nil [simp]: "run API_URL st [] = st"
  by (simp add: run_def)

lemma run_Cons [simp]:
  "run API_URL st (e # es) = run API_URL (exec st (captureAndCheck API_URL e)) es"
  by (simp add: run_def)

lemma upload_form_eq:
  "upload_form blob =
     [(''file'', \<lparr>file_name = ''selfie.jpg'', file_type = ''image/jpeg'',
                  file_bytes = blob_bytes blob\<rparr>)]"
  by (simp add: upload_form_def FormData_append_def new_File_def)

text \<open>The effects of an invocation, one equation per way through the function.\<close>

lemma trace_no_frame:
  assumes "webcamRef_current e = Some cam" and "getScreenshot cam = None \<or> getScreenshot cam = Some []"
  shows "captureAndCheck API_URL e =
           [SetLoading True, SetError None, GetScreenshot,
            SetError (Some ''Could not capture image from webcam.''), SetLoading False]"
  using assms by (auto simp add: captureAndCheck_def no_frame_block_def)

lemma trace_fetch_rejected:
  assumes "webcamRef_current e = Some cam" and "getScreenshot cam = Some src" and "src \<noteq> []"
    and "fetch e src = Inl err"
  shows "captureAndCheck API_URL e =
           [SetLoading True, SetError None, GetScreenshot, Fetch src] @
           catch_block err @ [SetLoading False]"
  using assms by (simp add: captureAndCheck_def try_block_def)

lemma trace_blob_rejected:
  assumes "webcamRef_current e = Some cam" and "getScreenshot cam = Some src" and "src \<noteq> []"
    and "fetch e src = Inr r" and "response_blob r = Inl err"
  shows "captureAndCheck API_URL e =
           [SetLoading True, SetError None, GetScreenshot, Fetch src, ReadBlob] @
           catch_block err @ [SetLoading False]"
  using assms by (simp add: captureAndCheck_def try_block_def)

lemma trace_post_rejected:
  assumes "webcamRef_current e = Some cam" and "getScreenshot cam = Some src" and "src \<noteq> []"
    and "fetch e src = Inr r" and "response_blob r = Inr b"
    and "axios_post e API_URL (upload_form b) = Inl err"
  shows "captureAndCheck API_URL e =
           [SetLoading True, SetError None, GetScreenshot, Fetch src, ReadBlob,
            Post API_URL (upload_form b)] @
           catch_block err @ [SetLoading False]"
  using assms by (simp add: captureAndCheck_def try_block_def upload_form_def Let_def)

lemma trace_post_fulfilled:
  assumes "webcamRef_current e = Some cam" and "getScreenshot cam = Some src" and "src \<noteq> []"
    and "fetch e src = Inr r" and "response_blob r = Inr b"
    and "axios_post e API_URL (upload_form b) = Inr resp"
  shows "captureAndCheck API_URL e =
           [SetLoading True, SetError None, GetScreenshot, Fetch src, ReadBlob,
            Post API_URL (upload_form b), SetResult (data resp), SetLoading False]"
  using assms by (simp add: captureAndCheck_def try_block_def upload_form_def Let_def)

text \<open>Facts about \<open>axios.post\<close>, the handler and the concrete situations.\<close>

lemma env_answer_ref: "webcamRef_current (env_answer a) = Some \<lparr>getScreenshot = Some frame0\<rparr>"
  by (simp add: env_answer_def)

lemma frame0_nonempty: "frame0 \<noteq> []"
  by (simp add: frame0_def)

lemma env_answer_fetch: "fetch (env_answer a) frame0 = Inr \<lparr>response_blob = Inr blob0\<rparr>"
  by (simp add: env_answer_def decode0_def)

lemma env_answer_transport: "transport (env_answer a) url0 (upload_form blob0) = a"
  by (simp add: env_answer_def wire0_def upload_form_eq blob0_def)

lemma axios_post_2xx:
  "transport e u fd = HttpResponse s d \<Longrightarrow> 200 \<le> s \<Longrightarrow> s < 300 \<Longrightarrow>
   axios_post e u fd = Inr \<lparr>status = s, data = d\<rparr>"
  by (simp add: axios_post_def)

lemma axios_post_no_response:
  "transport e u fd = NoResponse msg \<Longrightarrow> axios_post e u fd = Inl (NetworkError msg)"
  by (simp add: axios_post_def)

lemma axios_post_bad_status:
  "transport e u fd = HttpResponse s d \<Longrightarrow> \<not> (200 \<le> s \<and> s < 300) \<Longrightarrow>
   axios_post e u fd = Inl (BadStatus s)"
  by (simp add: axios_post_def)

lemma catch_block_exec:
  "exec st (catch_block err @ [SetLoading False]) =
     st\<lparr>error := Some ''Failed to connect to the Bath-O-Meter backend.'', loading := False\<rparr>"
  by (simp add: catch_block_def)

lemma messages_differ:
  "''Failed to connect to the Bath-O-Meter backend.'' \<noteq> ''Could not capture image from webcam.''"
  by simp

section \<open>No Capture Source reference\<close>

text \<open>
  C4. When \<open>webcamRef.current\<close> is null, \<open>captureAndCheck\<close> returns at once: it performs
  no effect at all, and the three flags \<open>loading\<close>, \<open>result\<close> and \<open>error\<close> are what
  they were.
\<close>

theorem no_reference_is_noop:
  assumes "webcamRef_current e = None"
  shows "captureAndCheck API_URL e = [] \<and> exec st (captureAndCheck API_URL e) = st"
  using assms by (simp add: captureAndCheck_def exec_def)

theorem no_reference_is_noop_witness:
  "webcamRef_current env_unmounted = None \<and>
   captureAndCheck url0 env_unmounted = [] \<and>
   exec st_shown (captureAndCheck url0 env_unmounted) = st_shown"
proof -
  have h: "webcamRef_current env_unmounted = None"
    by (simp add: env_unmounted_def)
  from no_reference_is_noop [OF h, of url0 st_shown] h show ?thesis by simp
qed

section \<open>A frame and a successful upload\<close>

text \<open>
  C1. When the Capture Source returns a frame (a non-empty string, which the decoding
  steps turn into a blob) and the POST to the classification endpoint is fulfilled,
  \<open>captureAndCheck\<close> ends with \<open>loading = false\<close>, \<open>error = null\<close> and \<open>result\<close>
  equal to the \<open>data\<close> of the response, stored as it came.
\<close>

theorem success_stores_response:
  assumes "webcamRef_current e = Some cam" and "getScreenshot cam = Some src" and "src \<noteq> []"
    and "fetch e src = Inr r" and "response_blob r = Inr b"
    and "axios_post e API_URL (upload_form b) = Inr apiResponse"
  shows "exec st (captureAndCheck API_URL e) =
           \<lparr>result = data apiResponse, loading = False, error = None\<rparr>"
  by (simp add: trace_post_fulfilled [OF assms])

theorem success_stores_response_witness:
  "exec st_shown (captureAndCheck url0 env_clean) =
     \<lparr>result = clean_verdict, loading = False, error = None\<rparr>"
proof -
  have p: "axios_post env_clean url0 (upload_form blob0) = Inr \<lparr>status = 200, data = clean_verdict\<rparr>"
    by (simp add: env_clean_def axios_post_2xx [OF env_answer_transport])
  have "exec st_shown (captureAndCheck url0 env_clean) =
          \<lparr>result = data \<lparr>status = 200, data = clean_verdict\<rparr>, loading = False, error = None\<rparr>"
    by (rule success_stores_response [where cam = "\<lparr>getScreenshot = Some frame0\<rparr>" and src = frame0
          and r = "\<lparr>response_blob = Inr blob0\<rparr>" and b = blob0])
       (simp_all add: env_clean_def env_answer_ref env_answer_fetch frame0_nonempty p [unfolded env_clean_def])
  then show ?thesis by simp
qed

section \<open>No frame\<close>

text \<open>
  C2. When \<open>getScreenshot()\<close> yields null, \<open>captureAndCheck\<close> ends with
  \<open>loading = false\<close> and the error message of the capture failure, the result being
  what it was, and none of the awaited calls is made: neither the \<open>fetch\<close> that decodes
  the frame, nor the reading of its body, nor the POST.
\<close>

theorem no_frame_fails_without_network:
  assumes "webcamRef_current e = Some cam" and "getScreenshot cam = None"
  shows "exec st (captureAndCheck API_URL e) =
           \<lparr>result = result st, loading = False,
            error = Some ''Could not capture image from webcam.''\<rparr> \<and>
         filter is_await (captureAndCheck API_URL e) = []"
proof -
  have "captureAndCheck API_URL e =
          [SetLoading True, SetError None, GetScreenshot,
           SetError (Some ''Could not capture image from webcam.''), SetLoading False]"
    using assms by (simp add: trace_no_frame)
  then show ?thesis by simp
qed

theorem no_frame_fails_without_network_witness:
  "exec st_shown (captureAndCheck url0 env_no_frame) =
     \<lparr>result = bath_verdict, loading = False,
      error = Some ''Could not capture image from webcam.''\<rparr> \<and>
   filter is_await (captureAndCheck url0 env_no_frame) = []"
proof -
  have h: "webcamRef_current env_no_frame = Some \<lparr>getScreenshot = None\<rparr>"
    by (simp add: env_no_frame_def)
  from no_frame_fails_without_network [OF h, of st_shown url0]
  show ?thesis by (simp add: st_shown_def)
qed

section \<open>Failures inside the try block\<close>

text \<open>
  C3. When the POST fails, by a network error without response or by a status outside
  200..299, \<open>captureAndCheck\<close> ends with \<open>loading = false\<close>, with the result that was
  stored before, and with an error message that is not the one an invocation without a
  frame leaves behind.
\<close>

theorem transport_failure_keeps_result:
  assumes "webcamRef_current e = Some cam" and "getScreenshot cam = Some src" and "src \<noteq> []"
    and "fetch e src = Inr r" and "response_blob r = Inr b"
    and "transport e API_URL (upload_form b) = NoResponse msg \<or>
         (transport e API_URL (upload_form b) = HttpResponse s d \<and> \<not> (200 \<le> s \<and> s < 300))"
    and "webcamRef_current e' = Some cam'" and "getScreenshot cam' = None"
  shows "exec st (captureAndCheck API_URL e) =
           \<lparr>result = result st, loading = False,
            error = Some ''Failed to connect to the Bath-O-Meter backend.''\<rparr> \<and>
         error (exec st (captureAndCheck API_URL e)) \<noteq>
           error (exec st' (captureAndCheck API_URL e'))"
proof -
  obtain err where "axios_post e API_URL (upload_form b) = Inl err"
    using assms(6) by (auto simp add: axios_post_def)
  then have "captureAndCheck API_URL e =
               [SetLoading True, SetError None, GetScreenshot, Fetch src, ReadBlob,
                Post API_URL (upload_form b)] @ catch_block err @ [SetLoading False]"
    using assms(1-5) by (rule trace_post_rejected [rotated -1])
  then have fin: "exec st (captureAndCheck API_URL e) =
           \<lparr>result = result st, loading = False,
            error = Some ''Failed to connect to the Bath-O-Meter backend.''\<rparr>"
    by (simp add: catch_block_def)
  have "error (exec st' (captureAndCheck API_URL e')) = Some ''Could not capture image from webcam.''"
    using assms(7,8) by (simp add: trace_no_frame)
  with fin show ?thesis by simp
qed

theorem transport_failure_keeps_result_witness:
  "exec st_shown (captureAndCheck url0 env_offline) =
     \<lparr>result = result st_shown, loading = False,
      error = Some ''Failed to connect to the Bath-O-Meter backend.''\<rparr> \<and>
   error (exec st_shown (captureAndCheck url0 env_offline)) \<noteq>
     error (exec initial_state (captureAndCheck url0 env_no_frame)) \<and>
   exec st_shown (captureAndCheck url0 env_http500) =
     \<lparr>result = result st_shown, loading = False,
      error = Some ''Failed to connect to the Bath-O-Meter backend.''\<rparr> \<and>
   error (exec st_shown (captureAndCheck url0 env_http500)) \<noteq>
     error (exec initial_state (captureAndCheck url0 env_no_frame))"
proof -
  have nf: "webcamRef_current env_no_frame = Some \<lparr>getScreenshot = None\<rparr>"
    by (simp add: env_no_frame_def)
  have g: "getScreenshot \<lparr>getScreenshot = Some frame0\<rparr> = Some frame0"
    and n: "getScreenshot \<lparr>getScreenshot = None\<rparr> = None"
    and rb: "response_blob \<lparr>response_blob = Inr blob0\<rparr> = Inr blob0"
    by simp_all
  have a: "transport env_offline url0 (upload_form blob0) = NoResponse ''Network Error'' \<or>
           (transport env_offline url0 (upload_form blob0) = HttpResponse 0 JNull \<and>
            \<not> (200 \<le> (0::nat) \<and> (0::nat) < 300))"
    by (simp add: env_offline_def env_answer_transport)
  have b: "transport env_http500 url0 (upload_form blob0) = NoResponse [] \<or>
           (transport env_http500 url0 (upload_form blob0) = HttpResponse 500 odd_body \<and>
            \<not> (200 \<le> (500::nat) \<and> (500::nat) < 300))"
    by (simp add: env_http500_def env_answer_transport)
  have r1: "webcamRef_current env_offline = Some \<lparr>getScreenshot = Some frame0\<rparr>"
    and f1: "fetch env_offline frame0 = Inr \<lparr>response_blob = Inr blob0\<rparr>"
    by (simp_all add: env_offline_def env_answer_ref env_answer_fetch)
  have r2: "webcamRef_current env_http500 = Some \<lparr>getScreenshot = Some frame0\<rparr>"
    and f2: "fetch env_http500 frame0 = Inr \<lparr>response_blob = Inr blob0\<rparr>"
    by (simp_all add: env_http500_def env_answer_ref env_answer_fetch)
  from transport_failure_keeps_result [OF r1 g frame0_nonempty f1 rb a nf n, of st_shown initial_state]
       transport_failure_keeps_result [OF r2 g frame0_nonempty f2 rb b nf n, of st_shown initial_state]
  show ?thesis by blast
qed

text \<open>
  C10. When a frame was obtained but turning it into a blob is rejected, at
  \<open>fetch(imageSrc)\<close> or at \<open>response.blob()\<close>, the rejection lands in the same
  \<open>catch\<close> block as a failed POST: the effects end with that block and the \<open>finally\<close>,
  no POST is issued, \<open>loading\<close> ends false, the result is what it was, and the error is
  the message of the backend failure, not that of the capture failure.
\<close>

theorem decode_failure_is_caught:
  assumes "webcamRef_current e = Some cam" and "getScreenshot cam = Some src" and "src \<noteq> []"
    and "fetch e src = Inl err \<or> (fetch e src = Inr r \<and> response_blob r = Inl err)"
  shows "exec st (captureAndCheck API_URL e) =
           \<lparr>result = result st, loading = False,
            error = Some ''Failed to connect to the Bath-O-Meter backend.''\<rparr> \<and>
         (\<exists>pre. captureAndCheck API_URL e = pre @ catch_block err @ [SetLoading False]) \<and>
         filter is_Post (captureAndCheck API_URL e) = [] \<and>
         error (exec st (captureAndCheck API_URL e)) \<noteq> Some ''Could not capture image from webcam.''"
proof -
  consider (f) "fetch e src = Inl err" | (b) "fetch e src = Inr r" and "response_blob r = Inl err"
    using assms(4) by blast
  then show ?thesis
  proof cases
    case f
    have t: "captureAndCheck API_URL e =
               [SetLoading True, SetError None, GetScreenshot, Fetch src] @
               catch_block err @ [SetLoading False]"
      using assms(1-3) f by (rule trace_fetch_rejected)
    show ?thesis
      unfolding t by (simp add: catch_block_def)
  next
    case b
    have t: "captureAndCheck API_URL e =
               [SetLoading True, SetError None, GetScreenshot, Fetch src, ReadBlob] @
               catch_block err @ [SetLoading False]"
      using assms(1-3) b by (rule trace_blob_rejected)
    show ?thesis
      unfolding t by (simp add: catch_block_def)
  qed
qed


theorem decode_failure_is_caught_witness:
  "exec st_shown (captureAndCheck url0 env_undecodable) =
     \<lparr>result = result st_shown, loading = False,
      error = Some ''Failed to connect to the Bath-O-Meter backend.''\<rparr> \<and>
   exec st_shown (captureAndCheck url0 env_body_unreadable) =
     \<lparr>result = result st_shown, loading = False,
      error = Some ''Failed to connect to the Bath-O-Meter backend.''\<rparr> \<and>
   filter is_Post (captureAndCheck url0 env_undecodable) = [] \<and>
   filter is_Post (captureAndCheck url0 env_body_unreadable) = []"
proof -
  have r1: "webcamRef_current env_undecodable = Some \<lparr>getScreenshot = Some ''not a data url''\<rparr>"
    by (simp add: env_undecodable_def)
  have g1: "getScreenshot \<lparr>getScreenshot = Some ''not a data url''\<rparr> = Some ''not a data url''"
    and ne1: "''not a data url'' \<noteq> []"
    by simp_all
  have f1: "fetch env_undecodable ''not a data url'' = Inl (TypeError ''Failed to fetch'') \<or>
            (fetch env_undecodable ''not a data url'' = Inr \<lparr>response_blob = Inr blob0\<rparr> \<and>
             response_blob \<lparr>response_blob = Inr blob0\<rparr> = Inl (TypeError ''Failed to fetch''))"
    by (simp add: env_undecodable_def env_clean_def env_answer_def decode0_def frame0_def)
  have r2: "webcamRef_current env_body_unreadable = Some \<lparr>getScreenshot = Some frame0\<rparr>"
    by (simp add: env_body_unreadable_def env_clean_def env_answer_def)
  have g2: "getScreenshot \<lparr>getScreenshot = Some frame0\<rparr> = Some frame0"
    by simp
  have f2: "fetch env_body_unreadable frame0 = Inl (TypeError ''body stream already read'') \<or>
            (fetch env_body_unreadable frame0 =
               Inr \<lparr>response_blob = Inl (TypeError ''body stream already read'')\<rparr> \<and>
             response_blob \<lparr>response_blob = Inl (TypeError ''body stream already read'')\<rparr> =
               Inl (TypeError ''body stream already read''))"
    by (simp add: env_body_unreadable_def)
  from decode_failure_is_caught [OF r1 g1 ne1 f1, of st_shown url0]
       decode_failure_is_caught [OF r2 g2 frame0_nonempty f2, of st_shown url0]
  show ?thesis by blast
qed

section \<open>A response of unexpected shape\<close>

text \<open>
  C9. A delivered response is stored without any check of its shape: when the POST is
  answered with a status in 200..299 and a body that is not a \<open>HygieneResult\<close>, the
  function still takes the success path, the body becomes the result, and the error stays
  null; the \<open>catch\<close> block is not entered.
\<close>

theorem unvalidated_body_is_stored:
  assumes "webcamRef_current e = Some cam" and "getScreenshot cam = Some src" and "src \<noteq> []"
    and "fetch e src = Inr r" and "response_blob r = Inr b"
    and "transport e API_URL (upload_form b) = HttpResponse s d" and "200 \<le> s" and "s < 300"
    and "\<not> is_HygieneResult d"
  shows "captureAndCheck API_URL e =
           [SetLoading True, SetError None, GetScreenshot, Fetch src, ReadBlob,
            Post API_URL (upload_form b), SetResult d, SetLoading False] \<and>
         exec st (captureAndCheck API_URL e) = \<lparr>result = d, loading = False, error = None\<rparr>"
proof -
  have "axios_post e API_URL (upload_form b) = Inr \<lparr>status = s, data = d\<rparr>"
    using assms(6-8) by (rule axios_post_2xx)
  from trace_post_fulfilled [OF assms(1-5) this] show ?thesis by simp
qed

theorem unvalidated_body_is_stored_witness:
  "\<not> is_HygieneResult odd_body \<and>
   exec st_shown (captureAndCheck url0 env_odd_body) =
     \<lparr>result = odd_body, loading = False, error = None\<rparr>"
proof -
  have r: "webcamRef_current env_odd_body = Some \<lparr>getScreenshot = Some frame0\<rparr>"
    and f: "fetch env_odd_body frame0 = Inr \<lparr>response_blob = Inr blob0\<rparr>"
    and t: "transport env_odd_body url0 (upload_form blob0) = HttpResponse 200 odd_body"
    by (simp_all add: env_odd_body_def env_answer_ref env_answer_fetch env_answer_transport)
  have g: "getScreenshot \<lparr>getScreenshot = Some frame0\<rparr> = Some frame0"
    and rb: "response_blob \<lparr>response_blob = Inr blob0\<rparr> = Inr blob0"
    and lo: "(200::nat) \<le> 200" and hi: "(200::nat) < 300"
    by simp_all
  have odd: "\<not> is_HygieneResult odd_body"
    by (simp add: odd_body_def)
  from unvalidated_body_is_stored [OF r g frame0_nonempty f rb t lo hi odd, of st_shown] odd
  show ?thesis by blast
qed

section \<open>The loading flag over an invocation\<close>

lemma observations_events: "map fst (observations st evs) = filter is_await evs"
  by (induction evs arbitrary: st) simp_all

lemma trace_cases:
  assumes "webcamRef_current e = Some cam"
  obtains
    (no_frame) "captureAndCheck API_URL e =
       [SetLoading True, SetError None, GetScreenshot,
        SetError (Some ''Could not capture image from webcam.''), SetLoading False]"
  | (fetch_rejected) src err where "captureAndCheck API_URL e =
       [SetLoading True, SetError None, GetScreenshot, Fetch src] @
       catch_block err @ [SetLoading False]"
  | (blob_rejected) src err where "captureAndCheck API_URL e =
       [SetLoading True, SetError None, GetScreenshot, Fetch src, ReadBlob] @
       catch_block err @ [SetLoading False]"
  | (post_rejected) src b err where "captureAndCheck API_URL e =
       [SetLoading True, SetError None, GetScreenshot, Fetch src, ReadBlob,
        Post API_URL (upload_form b)] @ catch_block err @ [SetLoading False]"
  | (post_fulfilled) src b d where "captureAndCheck API_URL e =
       [SetLoading True, SetError None, GetScreenshot, Fetch src, ReadBlob,
        Post API_URL (upload_form b), SetResult d, SetLoading False]"
proof (cases "getScreenshot cam")
  case None
  with assms no_frame show ?thesis by (simp add: trace_no_frame)
next
  case (Some src)
  show ?thesis
  proof (cases "src = []")
    case True
    with assms Some no_frame show ?thesis by (simp add: trace_no_frame)
  next
    case ne: False
    show ?thesis
    proof (cases "fetch e src")
      case (Inl err)
      show ?thesis by (rule fetch_rejected [OF trace_fetch_rejected [OF assms Some ne Inl]])
    next
      case (Inr r)
      show ?thesis
      proof (cases "response_blob r")
        case (Inl err)
        show ?thesis by (rule blob_rejected [OF trace_blob_rejected [OF assms Some ne Inr Inl]])
      next
        case b: (Inr b)
        show ?thesis
        proof (cases "axios_post e API_URL (upload_form b)")
          case (Inl err)
          show ?thesis by (rule post_rejected [OF trace_post_rejected [OF assms Some ne Inr b Inl]])
        next
          case r: (Inr resp)
          show ?thesis by (rule post_fulfilled [OF trace_post_fulfilled [OF assms Some ne Inr b r]])
        qed
      qed
    qed
  qed
qed

text \<open>
  C5, as the code has it. Once the reference is there, \<open>loading\<close> is set before the
  frame is asked for, and the function is suspended three times at most: at the
  \<open>fetch\<close> that decodes the frame, at the reading of its body and at the POST. At
  every one of these suspensions \<open>loading\<close> is true, so it is true for the whole time
  the POST is pending, and also while the frame is being decoded, before the POST is
  issued. The last effect on every way through the function is \<open>setLoading(false)\<close>,
  so \<open>loading\<close> is false when the function returns, whatever was rejected in between.
\<close>

theorem loading_spans_every_await:
  assumes "webcamRef_current e = Some cam"
  shows "(\<forall>(ev, s) \<in> set (observations st (captureAndCheck API_URL e)). loading s) \<and>
         map fst (observations st (captureAndCheck API_URL e)) =
           filter is_await (captureAndCheck API_URL e) \<and>
         captureAndCheck API_URL e \<noteq> [] \<and>
         last (captureAndCheck API_URL e) = SetLoading False \<and>
         loading (exec st (captureAndCheck API_URL e)) = False"
  using assms
  apply (cases rule: trace_cases [where API_URL = API_URL])
  apply (simp_all add: catch_block_def observations_events)
  done

theorem loading_spans_every_await_witness:
  "list_all (\<lambda>(ev, s). loading s) (observations st_shown (captureAndCheck url0 env_clean)) \<and>
   map fst (observations st_shown (captureAndCheck url0 env_clean)) =
     [Fetch frame0, ReadBlob, Post url0 (upload_form blob0)] \<and>
   last (captureAndCheck url0 env_clean) = SetLoading False \<and>
   loading (exec st_shown (captureAndCheck url0 env_clean)) = False"
proof -
  have r: "webcamRef_current env_clean = Some \<lparr>getScreenshot = Some frame0\<rparr>"
    by (simp add: env_clean_def env_answer_ref)
  have p: "axios_post env_clean url0 (upload_form blob0) = Inr \<lparr>status = 200, data = clean_verdict\<rparr>"
    by (simp add: env_clean_def axios_post_2xx [OF env_answer_transport])
  have t: "captureAndCheck url0 env_clean =
             [SetLoading True, SetError None, GetScreenshot, Fetch frame0, ReadBlob,
              Post url0 (upload_form blob0),
              SetResult (data \<lparr>status = 200, data = clean_verdict\<rparr>), SetLoading False]"
    by (rule trace_post_fulfilled [where r = "\<lparr>response_blob = Inr blob0\<rparr>", OF r _ frame0_nonempty _ _ p])
       (simp_all add: env_clean_def env_answer_fetch)
  have a: "filter is_await (captureAndCheck url0 env_clean) =
             [Fetch frame0, ReadBlob, Post url0 (upload_form blob0)]"
    by (simp add: t)
  from loading_spans_every_await [OF r, of st_shown url0] a show ?thesis
    unfolding list_all_iff by simp
qed

text \<open>
  C5, as stated, asks for \<open>loading\<close> to be false at every observed instant outside the
  interval in which the POST is pending. With a frame that \<open>fetch\<close> cannot decode no
  POST is ever issued, and yet the one suspension of the invocation sees \<open>loading\<close>
  true.
\<close>

theorem loading_before_post_counterexample:
  "observations initial_state (captureAndCheck url0 env_undecodable) =
     [(Fetch ''not a data url'', \<lparr>result = JNull, loading = True, error = None\<rparr>)] \<and>
   filter is_Post (captureAndCheck url0 env_undecodable) = []"
proof -
  have t: "captureAndCheck url0 env_undecodable =
             [SetLoading True, SetError None, GetScreenshot, Fetch ''not a data url''] @
             catch_block (TypeError ''Failed to fetch'') @ [SetLoading False]"
    by (rule trace_fetch_rejected [where cam = "\<lparr>getScreenshot = Some ''not a data url''\<rparr>"])
       (simp_all add: env_undecodable_def env_clean_def env_answer_def decode0_def frame0_def)
  show ?thesis
    by (simp add: t catch_block_def initial_state_def)
qed

section \<open>Invocations one after the other\<close>

lemma final_state_by_attempt:
  "exec st (captureAndCheck API_URL e) =
     (case attempt_of API_URL e of
        NoReference \<Rightarrow> st
      | NoFrame \<Rightarrow>
          \<lparr>result = result st, loading = False,
           error = Some ''Could not capture image from webcam.''\<rparr>
      | Rejected err \<Rightarrow>
          \<lparr>result = result st, loading = False,
           error = Some ''Failed to connect to the Bath-O-Meter backend.''\<rparr>
      | Classified d \<Rightarrow> \<lparr>result = d, loading = False, error = None\<rparr>)"
  by (simp add: captureAndCheck_def attempt_of_def try_block_def no_frame_block_def
        catch_block_def upload_form_def exec_append Let_def
      split: option.split sum.split)

lemma result_by_attempt:
  "result (exec st (captureAndCheck API_URL e)) =
     (case attempt_of API_URL e of Classified d \<Rightarrow> d | _ \<Rightarrow> result st)"
  by (simp add: final_state_by_attempt split: attempt.split)

lemma error_by_attempt:
  "failure_message (attempt_of API_URL e) = Some m \<Longrightarrow>
   error (exec st (captureAndCheck API_URL e)) = Some m"
  by (auto simp add: final_state_by_attempt split: attempt.split)

lemma run_snoc:
  "run API_URL st (es @ [e]) = exec (run API_URL st es) (captureAndCheck API_URL e)"
  by (simp add: run_def)

lemma result_run:
  "result (run API_URL st es) =
     (case last_classified API_URL es of None \<Rightarrow> result st | Some d \<Rightarrow> d)"
proof (induction es arbitrary: st)
  case Nil
  show ?case by simp
next
  case (Cons e es)
  show ?case
    by (simp add: Cons.IH result_by_attempt split: option.split attempt.split)
qed

lemma attempt_clean: "attempt_of url0 (env_answer (HttpResponse 200 d)) = Classified d"
  by (simp add: attempt_of_def env_answer_ref env_answer_fetch frame0_nonempty
        axios_post_2xx [OF env_answer_transport])

lemma attempt_offline: "attempt_of url0 env_offline = Rejected (NetworkError ''Network Error'')"
  by (simp add: attempt_of_def env_offline_def env_answer_ref env_answer_fetch frame0_nonempty
        axios_post_no_response [OF env_answer_transport])

lemma attempt_no_frame: "attempt_of url0 env_no_frame = NoFrame"
  by (simp add: attempt_of_def env_no_frame_def)

lemma set_result_in_trace:
  assumes "SetResult r \<in> set (captureAndCheck API_URL e)"
  shows "attempt_of API_URL e = Classified r"
proof (cases "webcamRef_current e")
  case None
  with assms show ?thesis by (simp add: captureAndCheck_def)
next
  case cam: (Some cam)
  show ?thesis
  proof (cases "getScreenshot cam = None \<or> getScreenshot cam = Some []")
    case True
    from assms show ?thesis
      unfolding trace_no_frame [OF cam True] by simp
  next
    case False
    then obtain src where src: "getScreenshot cam = Some src" and ne: "src \<noteq> []"
      by (cases "getScreenshot cam") auto
    show ?thesis
    proof (cases "fetch e src")
      case (Inl err)
      from assms show ?thesis
        unfolding trace_fetch_rejected [OF cam src ne Inl] by (simp add: catch_block_def)
    next
      case r: (Inr resp)
      show ?thesis
      proof (cases "response_blob resp")
        case (Inl err)
        from assms show ?thesis
          unfolding trace_blob_rejected [OF cam src ne r Inl] by (simp add: catch_block_def)
      next
        case b: (Inr b)
        show ?thesis
        proof (cases "axios_post e API_URL (upload_form b)")
          case (Inl err)
          from assms show ?thesis
            unfolding trace_post_rejected [OF cam src ne r b Inl] by (simp add: catch_block_def)
        next
          case p: (Inr apiResponse)
          from assms have "r = data apiResponse"
            unfolding trace_post_fulfilled [OF cam src ne r b p] by simp
          then show ?thesis
            using cam src ne r b p by (simp add: attempt_of_def)
        qed
      qed
    qed
  qed
qed

lemma flags_while_suspended:
  assumes "webcamRef_current e = Some cam"
  shows "\<forall>(ev, s) \<in> set (observations st (captureAndCheck API_URL e)).
           error s = None \<and> result s = result st"
  using assms
  by (cases rule: trace_cases [where API_URL = API_URL]) (simp_all add: catch_block_def)

lemma result_kept_on_failure:
  "failure_message (attempt_of API_URL e) = Some m \<Longrightarrow>
   result (exec st (captureAndCheck API_URL e)) = result st"
  by (cases "attempt_of API_URL e") (simp_all add: result_by_attempt)

text \<open>
  C6. Once the reference is there, an invocation begins with \<open>setLoading(true)\<close>,
  \<open>setError(null)\<close> and the call of \<open>getScreenshot()\<close>: the error is null after the
  first two and the result is what it was. The result is written nowhere but on the
  success path, with the delivered body, so at every suspension of the invocation the
  error is null and the earlier result is still there, and a failing invocation ends with
  the result it started with. Hence the error that a failing invocation leaves depends on
  the kind of its own failure only: after one failing invocation, and after a second one
  following it, the error is exactly the one message of the invocation that ran last,
  with nothing of the earlier message in it.
\<close>

theorem error_is_fresh_each_attempt:
  "(webcamRef_current e \<noteq> None \<longrightarrow>
      take 3 (captureAndCheck API_URL e) = [SetLoading True, SetError None, GetScreenshot] \<and>
      error (exec st (take 2 (captureAndCheck API_URL e))) = None \<and>
      result (exec st (take 2 (captureAndCheck API_URL e))) = result st \<and>
      (\<forall>(ev, s) \<in> set (observations st (captureAndCheck API_URL e)).
          error s = None \<and> result s = result st)) \<and>
   (\<forall>r. SetResult r \<in> set (captureAndCheck API_URL e) \<longrightarrow>
        attempt_of API_URL e = Classified r) \<and>
   (failure_message (attempt_of API_URL e1) = Some m1 \<and>
    failure_message (attempt_of API_URL e2) = Some m2 \<longrightarrow>
      error (run API_URL st [e1]) = Some m1 \<and>
      result (run API_URL st [e1]) = result st \<and>
      error (run API_URL st [e1, e2]) = Some m2 \<and>
      result (run API_URL st [e1, e2]) = result st)"
proof (intro conjI impI allI)
  assume "webcamRef_current e \<noteq> None"
  then obtain cam where cam: "webcamRef_current e = Some cam" by blast
  then have t: "take 3 (captureAndCheck API_URL e) = [SetLoading True, SetError None, GetScreenshot]"
    by (simp add: captureAndCheck_def)
  from cam have t2: "take 2 (captureAndCheck API_URL e) = [SetLoading True, SetError None]"
    by (simp add: captureAndCheck_def)
  show "take 3 (captureAndCheck API_URL e) = [SetLoading True, SetError None, GetScreenshot]"
    by (rule t)
  show "error (exec st (take 2 (captureAndCheck API_URL e))) = None"
    by (simp add: t2)
  show "result (exec st (take 2 (captureAndCheck API_URL e))) = result st"
    by (simp add: t2)
  show "\<forall>(ev, s) \<in> set (observations st (captureAndCheck API_URL e)).
          error s = None \<and> result s = result st"
    by (rule flags_while_suspended [OF cam])
next
  fix r
  assume "SetResult r \<in> set (captureAndCheck API_URL e)"
  then show "attempt_of API_URL e = Classified r"
    by (rule set_result_in_trace)
next
  assume a: "failure_message (attempt_of API_URL e1) = Some m1 \<and>
             failure_message (attempt_of API_URL e2) = Some m2"
  show "error (run API_URL st [e1]) = Some m1"
    using a by (simp add: error_by_attempt)
  show "result (run API_URL st [e1]) = result st"
    using a by (simp add: result_kept_on_failure)
  show "error (run API_URL st [e1, e2]) = Some m2"
    using a by (simp add: error_by_attempt)
  show "result (run API_URL st [e1, e2]) = result st"
    using a by (simp add: result_kept_on_failure)
qed

theorem error_is_fresh_each_attempt_witness:
  "take 3 (captureAndCheck url0 env_clean) = [SetLoading True, SetError None, GetScreenshot] \<and>
   error (exec st_shown (take 2 (captureAndCheck url0 env_clean))) = None \<and>
   result (exec st_shown (take 2 (captureAndCheck url0 env_clean))) = result st_shown \<and>
   map fst (observations st_shown (captureAndCheck url0 env_clean)) =
     [Fetch frame0, ReadBlob, Post url0 (upload_form blob0)] \<and>
   list_all (\<lambda>(ev, s). error s = None \<and> result s = result st_shown)
     (observations st_shown (captureAndCheck url0 env_clean)) \<and>
   SetResult clean_verdict \<in> set (captureAndCheck url0 env_clean) \<and>
   attempt_of url0 env_clean = Classified clean_verdict \<and>
   error (run url0 st_shown [env_no_frame]) = Some ''Could not capture image from webcam.'' \<and>
   result (run url0 st_shown [env_no_frame]) = result st_shown \<and>
   error (run url0 st_shown [env_no_frame, env_offline]) =
     Some ''Failed to connect to the Bath-O-Meter backend.'' \<and>
   result (run url0 st_shown [env_no_frame, env_offline]) = result st_shown \<and>
   error (run url0 st_shown [env_offline, env_offline]) =
     Some ''Failed to connect to the Bath-O-Meter backend.'' \<and>
   result (run url0 st_shown [env_offline, env_offline]) = result st_shown"
proof -
  have r: "webcamRef_current env_clean \<noteq> None"
    and r': "webcamRef_current env_clean = Some \<lparr>getScreenshot = Some frame0\<rparr>"
    by (simp_all add: env_clean_def env_answer_ref)
  have p: "axios_post env_clean url0 (upload_form blob0) = Inr \<lparr>status = 200, data = clean_verdict\<rparr>"
    by (simp add: env_clean_def axios_post_2xx [OF env_answer_transport])
  have t: "captureAndCheck url0 env_clean =
             [SetLoading True, SetError None, GetScreenshot, Fetch frame0, ReadBlob,
              Post url0 (upload_form blob0),
              SetResult (data \<lparr>status = 200, data = clean_verdict\<rparr>), SetLoading False]"
    by (rule trace_post_fulfilled [where r = "\<lparr>response_blob = Inr blob0\<rparr>",
          OF r' _ frame0_nonempty _ _ p])
       (simp_all add: env_clean_def env_answer_fetch)
  have o: "map fst (observations st_shown (captureAndCheck url0 env_clean)) =
             [Fetch frame0, ReadBlob, Post url0 (upload_form blob0)]"
    by (simp add: observations_events t)
  have m: "SetResult clean_verdict \<in> set (captureAndCheck url0 env_clean)"
    by (simp add: t)
  have a: "failure_message (attempt_of url0 env_no_frame) = Some ''Could not capture image from webcam.''"
    by (simp add: attempt_no_frame)
  have b: "failure_message (attempt_of url0 env_offline) =
             Some ''Failed to connect to the Bath-O-Meter backend.''"
    by (simp add: attempt_offline)
  from error_is_fresh_each_attempt [of env_clean url0 st_shown env_no_frame _ env_offline] r a b m
       error_is_fresh_each_attempt [of env_clean url0 st_shown env_offline _ env_offline] o
  show ?thesis unfolding list_all_iff by blast
qed

lemma HygieneResult_not_null: "is_HygieneResult d \<Longrightarrow> d \<noteq> JNull"
  by (cases d) simp_all

lemma last_classified_attempt:
  "last_classified API_URL es = Some d \<Longrightarrow> \<exists>e \<in> set es. attempt_of API_URL e = Classified d"
proof (induction es)
  case Nil
  then show ?case by simp
next
  case (Cons e es)
  show ?case
  proof (cases "last_classified API_URL es")
    case None
    with Cons.prems have "attempt_of API_URL e = Classified d"
      by (cases "attempt_of API_URL e") simp_all
    then show ?thesis by simp
  next
    case (Some d')
    with Cons.prems have "d' = d" by simp
    with Some Cons.IH show ?thesis by simp
  qed
qed

text \<open>
  C8. Let every body that a sequence of invocations is delivered be a \<open>HygieneResult\<close>,
  as the type of the POST says. Then the result is one value, null or a
  \<open>HygieneResult\<close>, at every point of the sequence: it is the body of the most recent
  invocation that delivered one, and the initial value when none did. So it is null as
  long as no classification succeeded and non-null after one did, no invocation turns a
  non-null result into null, a delivered body replaces the earlier result, and an
  invocation that fails (no frame, or a rejection) or finds no reference leaves the
  result as it was.
\<close>

theorem result_is_latest_classification:
  assumes "\<forall>e \<in> set es. \<forall>d. attempt_of API_URL e = Classified d \<longrightarrow> is_HygieneResult d"
  shows "result (run API_URL st es) =
           (case last_classified API_URL es of None \<Rightarrow> result st | Some d \<Rightarrow> d) \<and>
         (last_classified API_URL es = None \<longrightarrow> result (run API_URL initial_state es) = JNull) \<and>
         (last_classified API_URL es \<noteq> None \<longrightarrow>
            is_HygieneResult (result (run API_URL st es)) \<and> result (run API_URL st es) \<noteq> JNull) \<and>
         (result st \<noteq> JNull \<longrightarrow> result (run API_URL st es) \<noteq> JNull) \<and>
         (result st = JNull \<or> is_HygieneResult (result st) \<longrightarrow>
            result (run API_URL st es) = JNull \<or> is_HygieneResult (result (run API_URL st es))) \<and>
         (\<forall>e \<in> set es. \<forall>s.
            (case attempt_of API_URL e of
               Classified d \<Rightarrow> result (exec s (captureAndCheck API_URL e)) = d \<and> d \<noteq> JNull
             | _ \<Rightarrow> result (exec s (captureAndCheck API_URL e)) = result s))"
proof -
  have eq: "result (run API_URL st' es) =
              (case last_classified API_URL es of None \<Rightarrow> result st' | Some d \<Rightarrow> d)" for st'
    by (rule result_run)
  have some: "is_HygieneResult d" if "last_classified API_URL es = Some d" for d
    using last_classified_attempt [OF that] assms by blast
  have c1: "last_classified API_URL es = None \<longrightarrow> result (run API_URL initial_state es) = JNull"
    by (simp add: eq initial_state_def)
  have c2: "last_classified API_URL es \<noteq> None \<longrightarrow>
            is_HygieneResult (result (run API_URL st es)) \<and> result (run API_URL st es) \<noteq> JNull"
    using some by (auto simp add: eq dest: HygieneResult_not_null)
  have c3: "result st \<noteq> JNull \<longrightarrow> result (run API_URL st es) \<noteq> JNull"
    using some by (cases "last_classified API_URL es") (auto simp add: eq dest: HygieneResult_not_null)
  have c4: "result st = JNull \<or> is_HygieneResult (result st) \<longrightarrow>
            result (run API_URL st es) = JNull \<or> is_HygieneResult (result (run API_URL st es))"
    using some by (cases "last_classified API_URL es") (auto simp add: eq)
  have c5: "\<forall>e \<in> set es. \<forall>s.
            (case attempt_of API_URL e of
               Classified d \<Rightarrow> result (exec s (captureAndCheck API_URL e)) = d \<and> d \<noteq> JNull
             | _ \<Rightarrow> result (exec s (captureAndCheck API_URL e)) = result s)"
  proof (intro ballI allI)
    fix e s
    assume e: "e \<in> set es"
    show "case attempt_of API_URL e of
            Classified d \<Rightarrow> result (exec s (captureAndCheck API_URL e)) = d \<and> d \<noteq> JNull
          | _ \<Rightarrow> result (exec s (captureAndCheck API_URL e)) = result s"
    proof (cases "attempt_of API_URL e")
      case (Classified d)
      with assms e have "is_HygieneResult d" by blast
      then have "d \<noteq> JNull" by (rule HygieneResult_not_null)
      with Classified show ?thesis by (simp add: result_by_attempt)
    qed (simp_all add: result_by_attempt)
  qed
  from eq [of st] c1 c2 c3 c4 c5 show ?thesis by blast
qed

theorem result_is_latest_classification_witness:
  "result (run url0 initial_state [env_no_frame, env_offline]) = JNull \<and>
   result (run url0 initial_state [env_no_frame, env_clean, env_offline]) = clean_verdict \<and>
   is_HygieneResult (result (run url0 initial_state [env_no_frame, env_clean, env_offline])) \<and>
   result (run url0 st_shown [env_no_frame, env_clean, env_offline]) \<noteq> JNull \<and>
   result (exec st_shown (captureAndCheck url0 env_offline)) = result st_shown \<and>
   result (exec st_shown (captureAndCheck url0 env_no_frame)) = result st_shown \<and>
   result (exec st_shown (captureAndCheck url0 env_clean)) = clean_verdict"
proof -
  have c: "attempt_of url0 env_clean = Classified clean_verdict"
    by (simp add: env_clean_def attempt_clean)
  have hy: "is_HygieneResult clean_verdict"
    by (simp add: clean_verdict_def)
  have h1: "\<forall>e \<in> set [env_no_frame, env_offline].
              \<forall>d. attempt_of url0 e = Classified d \<longrightarrow> is_HygieneResult d"
    by (simp add: attempt_no_frame attempt_offline)
  have h2: "\<forall>e \<in> set [env_no_frame, env_clean, env_offline].
              \<forall>d. attempt_of url0 e = Classified d \<longrightarrow> is_HygieneResult d"
    by (simp add: attempt_no_frame attempt_offline c hy)
  have l1: "last_classified url0 [env_no_frame, env_offline] = None"
    by (simp add: attempt_no_frame attempt_offline)
  have l2: "last_classified url0 [env_no_frame, env_clean, env_offline] = Some clean_verdict"
    by (simp add: attempt_no_frame attempt_offline c)
  have ne: "result st_shown \<noteq> JNull"
    by (simp add: st_shown_def bath_verdict_def)
  note t1 = result_is_latest_classification [OF h1, of initial_state]
  note t2 = result_is_latest_classification [OF h2, of initial_state]
  note t3 = result_is_latest_classification [OF h2, of st_shown]
  from t1 l1 have a: "result (run url0 initial_state [env_no_frame, env_offline]) = JNull"
    by blast
  from t2 [THEN conjunct1]
  have b: "result (run url0 initial_state [env_no_frame, env_clean, env_offline]) = clean_verdict"
    by (simp only: l2 option.case)
  from t2 l2
  have b': "is_HygieneResult (result (run url0 initial_state [env_no_frame, env_clean, env_offline]))"
    by (metis option.distinct(1))
  from t3 ne
  have d: "result (run url0 st_shown [env_no_frame, env_clean, env_offline]) \<noteq> JNull"
    by blast
  from t3 have per: "\<forall>e \<in> set [env_no_frame, env_clean, env_offline]. \<forall>s.
            (case attempt_of url0 e of
               Classified d \<Rightarrow> result (exec s (captureAndCheck url0 e)) = d \<and> d \<noteq> JNull
             | _ \<Rightarrow> result (exec s (captureAndCheck url0 e)) = result s)"
    by blast
  from per have f1: "result (exec st_shown (captureAndCheck url0 env_offline)) = result st_shown"
    by (simp add: attempt_offline)
  from per have f2: "result (exec st_shown (captureAndCheck url0 env_no_frame)) = result st_shown"
    by (simp add: attempt_no_frame)
  from per have f3: "result (exec st_shown (captureAndCheck url0 env_clean)) = clean_verdict"
    by (simp add: c)
  from a b b' d f1 f2 f3 show ?thesis by blast
qed

section \<open>The request\<close>

lemma posts_of_trace:
  "filter is_Post (captureAndCheck API_URL e) =
     (case webcamRef_current e of
        None \<Rightarrow> []
      | Some cam \<Rightarrow>
          (case getScreenshot cam of
             None \<Rightarrow> []
           | Some src \<Rightarrow>
               if src = [] then []
               else (case fetch e src of
                       Inl err \<Rightarrow> []
                     | Inr r \<Rightarrow>
                         (case response_blob r of
                            Inl err \<Rightarrow> []
                          | Inr b \<Rightarrow> [Post API_URL (upload_form b)]))))"
  by (simp add: captureAndCheck_def try_block_def no_frame_block_def catch_block_def
        upload_form_def Let_def
      split: option.split sum.split)

lemma post_in_trace:
  assumes "Post u fd \<in> set (captureAndCheck API_URL e)"
  shows "u = API_URL \<and>
         (\<exists>cam src r b. webcamRef_current e = Some cam \<and> getScreenshot cam = Some src \<and>
            fetch e src = Inr r \<and> response_blob r = Inr b \<and> fd = upload_form b)"
proof -
  have p: "Post u fd \<in> set (filter is_Post (captureAndCheck API_URL e))"
    using assms by simp
  show ?thesis
  proof (cases "webcamRef_current e")
    case None
    with p show ?thesis by (simp add: posts_of_trace)
  next
    case cam: (Some cam)
    show ?thesis
    proof (cases "getScreenshot cam")
      case None
      with p cam show ?thesis by (simp add: posts_of_trace)
    next
      case src: (Some src)
      show ?thesis
      proof (cases "fetch e src")
        case (Inl err)
        with p cam src show ?thesis by (simp add: posts_of_trace split: if_splits)
      next
        case r: (Inr r)
        show ?thesis
        proof (cases "response_blob r")
          case (Inl err)
          with p cam src r show ?thesis by (simp add: posts_of_trace split: if_splits)
        next
          case b: (Inr b)
          from p cam src r b have "u = API_URL \<and> fd = upload_form b"
            by (simp add: posts_of_trace split: if_splits)
          with cam src r b show ?thesis by blast
        qed
      qed
    qed
  qed
qed

text \<open>
  C7. An invocation issues at most one POST, and exactly one when the frame was decoded.
  Its URL is the module constant \<open>API_URL\<close>, which no invocation reads from the
  configuration again, and its body is a form with the single part \<open>file\<close>: a file
  named \<open>selfie.jpg\<close> of type \<open>image/jpeg\<close> whose bytes are those of the blob decoded
  from the captured frame.
\<close>

theorem request_is_one_multipart_post:
  "length (filter is_Post (captureAndCheck API_URL e)) \<le> 1 \<and>
   (\<forall>u fd. Post u fd \<in> set (captureAndCheck API_URL e) \<longrightarrow>
      u = API_URL \<and>
      (\<exists>cam src r b.
         webcamRef_current e = Some cam \<and> getScreenshot cam = Some src \<and>
         fetch e src = Inr r \<and> response_blob r = Inr b \<and>
         fd = [(''file'', \<lparr>file_name = ''selfie.jpg'', file_type = ''image/jpeg'',
                           file_bytes = blob_bytes b\<rparr>)])) \<and>
   (\<forall>cam src r b.
      webcamRef_current e = Some cam \<and> getScreenshot cam = Some src \<and> src \<noteq> [] \<and>
      fetch e src = Inr r \<and> response_blob r = Inr b \<longrightarrow>
      filter is_Post (captureAndCheck API_URL e) =
        [Post API_URL [(''file'', \<lparr>file_name = ''selfie.jpg'', file_type = ''image/jpeg'',
                                   file_bytes = blob_bytes b\<rparr>)]])"
proof (intro conjI allI impI)
  show "length (filter is_Post (captureAndCheck API_URL e)) \<le> 1"
    by (simp add: posts_of_trace split: option.split sum.split)
next
  fix u fd
  assume p: "Post u fd \<in> set (captureAndCheck API_URL e)"
  from post_in_trace [OF p] show "u = API_URL" by blast
  from post_in_trace [OF p]
  show "\<exists>cam src r b.
         webcamRef_current e = Some cam \<and> getScreenshot cam = Some src \<and>
         fetch e src = Inr r \<and> response_blob r = Inr b \<and>
         fd = [(''file'', \<lparr>file_name = ''selfie.jpg'', file_type = ''image/jpeg'',
                           file_bytes = blob_bytes b\<rparr>)]"
    by (simp add: upload_form_eq)
next
  fix cam src r b
  assume "webcamRef_current e = Some cam \<and> getScreenshot cam = Some src \<and> src \<noteq> [] \<and>
      fetch e src = Inr r \<and> response_blob r = Inr b"
  then show "filter is_Post (captureAndCheck API_URL e) =
        [Post API_URL [(''file'', \<lparr>file_name = ''selfie.jpg'', file_type = ''image/jpeg'',
                                   file_bytes = blob_bytes b\<rparr>)]]"
    by (simp add: posts_of_trace upload_form_eq)
qed

theorem request_is_one_multipart_post_witness:
  "filter is_Post (captureAndCheck url0 env_clean) =
     [Post url0 [(''file'', \<lparr>file_name = ''selfie.jpg'', file_type = ''image/jpeg'',
                             file_bytes = [0xFF, 0xD8, 0xFF, 0xE0]\<rparr>)]] \<and>
   Post url0 [(''file'', \<lparr>file_name = ''selfie.jpg'', file_type = ''image/jpeg'',
                          file_bytes = [0xFF, 0xD8, 0xFF, 0xE0]\<rparr>)]
     \<in> set (captureAndCheck url0 env_clean) \<and>
   length (filter is_Post (captureAndCheck url0 env_clean)) \<le> 1"
proof -
  have h: "webcamRef_current env_clean = Some \<lparr>getScreenshot = Some frame0\<rparr> \<and>
           getScreenshot \<lparr>getScreenshot = Some frame0\<rparr> = Some frame0 \<and> frame0 \<noteq> [] \<and>
           fetch env_clean frame0 = Inr \<lparr>response_blob = Inr blob0\<rparr> \<and>
           response_blob \<lparr>response_blob = Inr blob0\<rparr> = Inr blob0"
    by (simp add: env_clean_def env_answer_ref env_answer_fetch frame0_nonempty)
  have bb: "blob_bytes blob0 = [0xFF, 0xD8, 0xFF, 0xE0]"
    by (simp add: blob0_def)
  from request_is_one_multipart_post [of url0 env_clean] h
  have f: "filter is_Post (captureAndCheck url0 env_clean) =
        [Post url0 [(''file'', \<lparr>file_name = ''selfie.jpg'', file_type = ''image/jpeg'',
                                file_bytes = blob_bytes blob0\<rparr>)]]"
    by blast
  have "Post url0 [(''file'', \<lparr>file_name = ''selfie.jpg'', file_type = ''image/jpeg'',
                          file_bytes = blob_bytes blob0\<rparr>)]
     \<in> set (filter is_Post (captureAndCheck url0 env_clean))"
    unfolding f by simp
  then have m: "Post url0 [(''file'', \<lparr>file_name = ''selfie.jpg'', file_type = ''image/jpeg'',
                          file_bytes = blob_bytes blob0\<rparr>)]
     \<in> set (captureAndCheck url0 env_clean)"
    unfolding set_filter by blast
  from request_is_one_multipart_post [of url0 env_clean]
  have l: "length (filter is_Post (captureAndCheck url0 env_clean)) \<le> 1"
    by blast
  from f m l show ?thesis unfolding bb by blast
qed

end
